theory Spec2Isabelle
  imports Main "HOL-Library.AList"
begin

section \<open>The recruitment API of \<open>app.py\<close>\<close>

text \<open>
  The service is a set of request handlers over a document store with the collections
  \<open>candidates\<close>, \<open>admins\<close>, \<open>jobs\<close> and \<open>applications\<close>, and over a directory of
  uploaded resumes. Each handler is embedded as a function from the state before the
  request to the pair of its outcome and the state after it: an exception is a value of
  type \<open>error\<close>, and a write made before an exception stays in the state.
\<close>

subsection \<open>Documents and collections\<close>

text \<open>
  A stored document is the identifier the driver gave it (the field \<open>_id\<close>) together with
  its other fields, a dictionary kept in insertion order. A document read from the store
  always has \<open>_id\<close>, so the dictionary a find returns is never empty and the tests
  \<open>if existing_candidate\<close>, \<open>if not job\<close> and \<open>job is None\<close> all ask whether a document
  was found.
\<close>

type_synonym oid = nat

datatype val = Str string | Oid oid | StrList "string list" | Null

type_synonym dict = "(string \<times> val) list"

record doc =
  oid :: oid
  content :: dict

type_synonym collection = "doc list"

datatype error =
    HTTPException nat string
  | RequestValidationError
  | InvalidId string
  | KeyError string
  | ValidationError
  | TypeError
  | UnknownHashError
  | PasswordValueError

type_synonym 'a result = "error + 'a"

record state =
  candidates :: collection
  admins :: collection
  jobs :: collection
  applications :: collection
  resumes :: "(string \<times> string) list"

subsection \<open>The libraries the handlers call\<close>

text \<open>
  \<open>bson\<close> and \<open>passlib\<close> are not part of the repository, so what they compute is a
  parameter of every handler that calls them. \<open>ObjectId s\<close> is \<open>None\<close> where the
  constructor raises \<open>InvalidId\<close>; \<open>str\<close> prints an identifier. \<open>hash\<close> takes the salt it
  draws as its first argument and may raise (it refuses some passwords); \<open>verify\<close> gets
  the stored value as it is and may raise.
\<close>

record bson =
  ObjectId :: "string \<Rightarrow> oid option"
  str :: "oid \<Rightarrow> string"

record CryptContext =
  hash :: "string \<Rightarrow> string \<Rightarrow> string result"
  verify :: "string \<Rightarrow> val \<Rightarrow> bool result"

definition get_password_hash :: "CryptContext \<Rightarrow> string \<Rightarrow> string \<Rightarrow> string result" where
  "get_password_hash pwd_context salt password = hash pwd_context salt password"

definition verify_password :: "CryptContext \<Rightarrow> string \<Rightarrow> val \<Rightarrow> bool result" where
  "verify_password pwd_context plain_password hashed_password =
     verify pwd_context plain_password hashed_password"

subsection \<open>Store operations\<close>

text \<open>
  An equality query on a field matches a document whose field has that value, or whose
  field is an array with that value among its elements.
\<close>

fun eq_match :: "val \<Rightarrow> val \<Rightarrow> bool" where
  "eq_match (StrList xs) (Str s) = (s \<in> set xs)"
| "eq_match v q = (v = q)"

definition matches :: "string \<Rightarrow> val \<Rightarrow> doc \<Rightarrow> bool" where
  "matches k q d = (case map_of (content d) k of None \<Rightarrow> False | Some v \<Rightarrow> eq_match v q)"

definition find_one :: "collection \<Rightarrow> string \<Rightarrow> val \<Rightarrow> doc option" where
  "find_one c k q = find (matches k q) c"

definition find_one_id :: "collection \<Rightarrow> oid \<Rightarrow> doc option" where
  "find_one_id c i = find (\<lambda>d. oid d = i) c"

text \<open>
  \<open>insert_one\<close> gives the document an identifier that no document of the collection has
  (the driver generates it; here it is the successor of the largest one in use) and
  appends it; the identifier is the \<open>inserted_id\<close> of the result.
\<close>

definition new_id :: "collection \<Rightarrow> oid" where
  "new_id c = Suc (fold max (map oid c) 0)"

definition insert_one :: "collection \<Rightarrow> dict \<Rightarrow> collection \<times> oid" where
  "insert_one c d = (c @ [\<lparr>oid = new_id c, content = d\<rparr>], new_id c)"

text \<open>
  \<open>update_one\<close> with \<open>$set\<close> changes the first document with the identifier: each named
  field is replaced where it is, or added at the end. The second component is the
  \<open>matched_count\<close> of the result.
\<close>

definition set_fields :: "dict \<Rightarrow> dict \<Rightarrow> dict" where
  "set_fields d s = fold (\<lambda>(k, v). AList.update k v) s d"

fun update_one :: "collection \<Rightarrow> oid \<Rightarrow> dict \<Rightarrow> collection \<times> nat" where
  "update_one [] i s = ([], 0)"
| "update_one (d # ds) i s =
     (if oid d = i then (d\<lparr>content := set_fields (content d) s\<rparr> # ds, 1)
      else (d # fst (update_one ds i s), snd (update_one ds i s)))"

definition to_list :: "nat \<Rightarrow> collection \<Rightarrow> collection" where
  "to_list n c = take n c"

text \<open>\<open>d[k]\<close> raises \<open>KeyError\<close> on a missing key, \<open>d.get(k)\<close> is \<open>None\<close> there.\<close>

definition getitem :: "doc \<Rightarrow> string \<Rightarrow> val result" where
  "getitem d k = (case map_of (content d) k of None \<Rightarrow> Inl (KeyError k) | Some v \<Rightarrow> Inr v)"

definition get :: "doc \<Rightarrow> string \<Rightarrow> val" where
  "get d k = (case map_of (content d) k of None \<Rightarrow> Null | Some v \<Rightarrow> v)"

definition contains :: "doc \<Rightarrow> string \<Rightarrow> bool" where
  "contains d k = (map_of (content d) k \<noteq> None)"

text \<open>A list comprehension stops at the first element whose expression raises.\<close>

fun comprehension :: "('a \<Rightarrow> 'b result) \<Rightarrow> 'a list \<Rightarrow> 'b list result" where
  "comprehension f [] = Inr []"
| "comprehension f (x # xs) =
     (case f x of
        Inl e \<Rightarrow> Inl e
      | Inr y \<Rightarrow> (case comprehension f xs of Inl e \<Rightarrow> Inl e | Inr ys \<Rightarrow> Inr (y # ys)))"

subsection \<open>Schemas\<close>

record Candidate =
  email :: string
  password :: string
  name :: string

record CandidateInDB = Candidate +
  hashed_password :: string

record CandidateResponse =
  id_str :: string
  resp_email :: string
  resp_name :: string

record LoginData =
  login_email :: string
  login_password :: string

record Job =
  title :: string
  description :: string
  department :: string
  location :: string
  employment_type :: string
  salary_range :: "string option"
  application_deadline :: "string option"
  required_skills :: "string list"
  additional_info :: "string option"

record JobResponse = Job +
  job_id_str :: string

text \<open>\<open>dict()\<close> of a \<open>CandidateInDB\<close>, and the \<open>exclude\<close> argument that drops fields by name.\<close>

definition CandidateInDB_dict :: "CandidateInDB \<Rightarrow> dict" where
  "CandidateInDB_dict c =
     [(''email'', Str (email c)), (''password'', Str (password c)),
      (''name'', Str (name c)), (''hashed_password'', Str (hashed_password c))]"

definition exclude :: "string set \<Rightarrow> dict \<Rightarrow> dict" where
  "exclude ks d = filter (\<lambda>(k, v). k \<notin> ks) d"

subsection \<open>Candidate signup\<close>

text \<open>
  The password is hashed after the lookup and before the insert, and nothing catches an
  exception of the hash: when it raises, the handler ends there and nothing is stored.
\<close>

definition signup :: "bson \<Rightarrow> CryptContext \<Rightarrow> string \<Rightarrow> Candidate \<Rightarrow> state
    \<Rightarrow> CandidateResponse result \<times> state" where
  "signup B pwd_context salt candidate st =
     (case find_one (candidates st) ''email'' (Str (email candidate)) of
        Some existing_candidate \<Rightarrow>
          (Inl (HTTPException 400 ''Email already registered''), st)
      | None \<Rightarrow>
          (case get_password_hash pwd_context salt (password candidate) of
             Inl e \<Rightarrow> (Inl e, st)
           | Inr hashed \<Rightarrow>
               (let candidate_in_db =
                      \<lparr>email = email candidate, password = password candidate,
                       name = name candidate, hashed_password = hashed\<rparr>;
                    r = insert_one (candidates st)
                          (exclude {''password''} (CandidateInDB_dict candidate_in_db))
                in (Inr \<lparr>id_str = str B (snd r), resp_email = email candidate,
                         resp_name = name candidate\<rparr>,
                    st\<lparr>candidates := fst r\<rparr>))))"

subsection \<open>Candidate login, admin login\<close>

text \<open>
  \<open>not candidate or not verify_password(...)\<close>: the verification is only reached for a
  document that was found, reads its \<open>hashed_password\<close> first, and an exception of either
  step leaves the handler.
\<close>

definition login :: "CryptContext \<Rightarrow> LoginData \<Rightarrow> state \<Rightarrow> string result \<times> state" where
  "login pwd_context login_data st =
     (case find_one (candidates st) ''email'' (Str (login_email login_data)) of
        None \<Rightarrow> (Inl (HTTPException 400 ''Invalid email or password''), st)
      | Some candidate \<Rightarrow>
          (case getitem candidate ''hashed_password'' of
             Inl e \<Rightarrow> (Inl e, st)
           | Inr h \<Rightarrow>
               (case verify_password pwd_context (login_password login_data) h of
                  Inl e \<Rightarrow> (Inl e, st)
                | Inr ok \<Rightarrow>
                    if \<not> ok then (Inl (HTTPException 400 ''Invalid email or password''), st)
                    else (Inr ''Login successful'', st))))"

definition admin_login :: "CryptContext \<Rightarrow> LoginData \<Rightarrow> state \<Rightarrow> string result \<times> state" where
  "admin_login pwd_context login_data st =
     (case find_one (admins st) ''email'' (Str (login_email login_data)) of
        None \<Rightarrow> (Inl (HTTPException 400 ''Invalid email or password''), st)
      | Some admin \<Rightarrow>
          (case getitem admin ''hashed_password'' of
             Inl e \<Rightarrow> (Inl e, st)
           | Inr h \<Rightarrow>
               (case verify_password pwd_context (login_password login_data) h of
                  Inl e \<Rightarrow> (Inl e, st)
                | Inr ok \<Rightarrow>
                    if \<not> ok then (Inl (HTTPException 400 ''Invalid email or password''), st)
                    else (Inr ''Admin login successful'', st))))"

subsection \<open>Apply for a job, upload a resume\<close>

definition apply_for_job :: "bson \<Rightarrow> string \<Rightarrow> string \<Rightarrow> state \<Rightarrow> string result \<times> state" where
  "apply_for_job B job_id candidate_email st =
     (case ObjectId B job_id of
        None \<Rightarrow> (Inl (InvalidId job_id), st)
      | Some j \<Rightarrow>
          (case find_one_id (jobs st) j of
             None \<Rightarrow> (Inl (HTTPException 404 ''Job not found''), st)
           | Some job \<Rightarrow>
               (case find_one (candidates st) ''email'' (Str candidate_email) of
                  None \<Rightarrow> (Inl (HTTPException 404 ''Candidate not found''), st)
                | Some candidate \<Rightarrow>
                    (Inr ''Job application successful'',
                     st\<lparr>applications :=
                          fst (insert_one (applications st)
                                 [(''job_id'', Oid j),
                                  (''candidate_email'', Str candidate_email)])\<rparr>))))"

text \<open>
  \<open>upload_resume\<close> writes the bytes under \<open>resumes/{candidate_id}_{filename}\<close> (the
  directory is made when it is absent) and then sets \<open>resume_path\<close> on the document;
  \<open>resumes\<close> maps each path to what was written last.
\<close>

definition upload_resume :: "bson \<Rightarrow> string \<Rightarrow> string \<Rightarrow> string \<Rightarrow> state
    \<Rightarrow> string result \<times> state" where
  "upload_resume B candidate_id filename file st =
     (case ObjectId B candidate_id of
        None \<Rightarrow> (Inl (InvalidId candidate_id), st)
      | Some c \<Rightarrow>
          (case find_one_id (candidates st) c of
             None \<Rightarrow> (Inl (HTTPException 404 ''Candidate not found''), st)
           | Some candidate \<Rightarrow>
               (let resume_path = ''resumes/'' @ candidate_id @ ''_'' @ filename;
                    st1 = st\<lparr>resumes := AList.update resume_path file (resumes st)\<rparr>
                in (Inr ''Resume uploaded successfully'',
                    st1\<lparr>candidates :=
                          fst (update_one (candidates st1) c
                                 [(''resume_path'', Str resume_path)])\<rparr>))))"

subsection \<open>Listing and reading candidates\<close>

text \<open>
  \<open>CandidateResponse(id=str(candidate["_id"]), email=candidate["email"],
  name=candidate["name"])\<close>: the two subscripts are evaluated first, in this order, and
  the schema then wants both values to be strings.
\<close>

definition CandidateResponse_of :: "bson \<Rightarrow> doc \<Rightarrow> CandidateResponse result" where
  "CandidateResponse_of B candidate =
     (case getitem candidate ''email'' of
        Inl e \<Rightarrow> Inl e
      | Inr em \<Rightarrow>
          (case getitem candidate ''name'' of
             Inl e \<Rightarrow> Inl e
           | Inr nm \<Rightarrow>
               (case (em, nm) of
                  (Str e, Str n) \<Rightarrow>
                    Inr \<lparr>id_str = str B (oid candidate), resp_email = e, resp_name = n\<rparr>
                | _ \<Rightarrow> Inl ValidationError)))"

definition view_candidates :: "bson \<Rightarrow> state \<Rightarrow> CandidateResponse list result \<times> state" where
  "view_candidates B st =
     (comprehension (CandidateResponse_of B) (to_list 100 (candidates st)), st)"

definition get_candidates :: "bson \<Rightarrow> state \<Rightarrow> CandidateResponse list result \<times> state" where
  "get_candidates B st =
     (comprehension (CandidateResponse_of B) (to_list 100 (candidates st)), st)"

definition get_candidate :: "bson \<Rightarrow> string \<Rightarrow> state \<Rightarrow> CandidateResponse result \<times> state" where
  "get_candidate B candidate_id st =
     (case ObjectId B candidate_id of
        None \<Rightarrow> (Inl (InvalidId candidate_id), st)
      | Some c \<Rightarrow>
          (case find_one_id (candidates st) c of
             None \<Rightarrow> (Inl (HTTPException 404 ''Candidate not found''), st)
           | Some candidate \<Rightarrow> (CandidateResponse_of B candidate, st)))"

text \<open>
  \<open>view_resumes\<close> keeps the documents that have the key \<open>resume_path\<close> and builds one
  dictionary for each.
\<close>

definition resume_entry :: "doc \<Rightarrow> dict result" where
  "resume_entry candidate =
     (case getitem candidate ''email'' of
        Inl e \<Rightarrow> Inl e
      | Inr em \<Rightarrow> Inr [(''email'', em), (''resume_path'', get candidate ''resume_path'')])"

definition view_resumes :: "state \<Rightarrow> dict list result \<times> state" where
  "view_resumes st =
     (comprehension resume_entry
        (filter (\<lambda>candidate. contains candidate ''resume_path'')
           (to_list 100 (candidates st))), st)"

subsection \<open>Jobs\<close>

definition Job_dict :: "Job \<Rightarrow> dict" where
  "Job_dict job =
     [(''title'', Str (title job)), (''description'', Str (description job)),
      (''department'', Str (department job)), (''location'', Str (location job)),
      (''employment_type'', Str (employment_type job)),
      (''salary_range'', case salary_range job of None \<Rightarrow> Null | Some s \<Rightarrow> Str s),
      (''application_deadline'',
         case application_deadline job of None \<Rightarrow> Null | Some s \<Rightarrow> Str s),
      (''required_skills'', StrList (required_skills job)),
      (''additional_info'', case additional_info job of None \<Rightarrow> Null | Some s \<Rightarrow> Str s)]"

text \<open>
  \<open>JobResponse(id=str(job["_id"]), **job)\<close>: a document with a key \<open>id\<close> of its own
  gives the keyword twice; the schema ignores the keys it does not declare (\<open>_id\<close>,
  \<open>status\<close>) and wants each declared field present with a value of its type.
\<close>

definition str_field :: "dict \<Rightarrow> string \<Rightarrow> string option" where
  "str_field d k = (case map_of d k of Some (Str s) \<Rightarrow> Some s | _ \<Rightarrow> None)"

definition optional_str_field :: "dict \<Rightarrow> string \<Rightarrow> string option option" where
  "optional_str_field d k =
     (case map_of d k of Some (Str s) \<Rightarrow> Some (Some s) | Some Null \<Rightarrow> Some None | _ \<Rightarrow> None)"

definition list_field :: "dict \<Rightarrow> string \<Rightarrow> string list option" where
  "list_field d k = (case map_of d k of Some (StrList xs) \<Rightarrow> Some xs | _ \<Rightarrow> None)"

definition JobResponse_of :: "string \<Rightarrow> dict \<Rightarrow> JobResponse result" where
  "JobResponse_of i d =
     (if map_of d ''id'' \<noteq> None then Inl TypeError
      else
        (case (str_field d ''title'', str_field d ''description'', str_field d ''department'',
               str_field d ''location'', str_field d ''employment_type'',
               optional_str_field d ''salary_range'',
               optional_str_field d ''application_deadline'',
               list_field d ''required_skills'', optional_str_field d ''additional_info'') of
           (Some t, Some ds, Some dp, Some l, Some e, Some sr, Some ad, Some rs, Some ai) \<Rightarrow>
             Inr \<lparr>title = t, description = ds, department = dp, location = l,
                  employment_type = e, salary_range = sr, application_deadline = ad,
                  required_skills = rs, additional_info = ai, job_id_str = i\<rparr>
         | _ \<Rightarrow> Inl ValidationError))"

definition get_jobs :: "bson \<Rightarrow> state \<Rightarrow> JobResponse list result \<times> state" where
  "get_jobs B st =
     (comprehension (\<lambda>job. JobResponse_of (str B (oid job)) (content job))
        (to_list 100 (jobs st)), st)"

definition get_job :: "bson \<Rightarrow> string \<Rightarrow> state \<Rightarrow> JobResponse result \<times> state" where
  "get_job B job_id st =
     (case ObjectId B job_id of
        None \<Rightarrow> (Inl (InvalidId job_id), st)
      | Some j \<Rightarrow>
          (case find_one_id (jobs st) j of
             None \<Rightarrow> (Inl (HTTPException 404 ''Job not found''), st)
           | Some job \<Rightarrow> (JobResponse_of (str B (oid job)) (content job), st)))"

definition post_job :: "bson \<Rightarrow> Job \<Rightarrow> state \<Rightarrow> JobResponse result \<times> state" where
  "post_job B job st =
     (let r = insert_one (jobs st) (Job_dict job)
      in (JobResponse_of (str B (snd r)) (Job_dict job), st\<lparr>jobs := fst r\<rparr>))"

definition update_job :: "bson \<Rightarrow> string \<Rightarrow> Job \<Rightarrow> state \<Rightarrow> JobResponse result \<times> state" where
  "update_job B job_id job st =
     (case ObjectId B job_id of
        None \<Rightarrow> (Inl (InvalidId job_id), st)
      | Some j \<Rightarrow>
          (let r = update_one (jobs st) j (Job_dict job)
           in if snd r = 0 then (Inl (HTTPException 404 ''Job not found''), st\<lparr>jobs := fst r\<rparr>)
              else (JobResponse_of job_id (Job_dict job), st\<lparr>jobs := fst r\<rparr>)))"

definition update_job_status :: "bson \<Rightarrow> string \<Rightarrow> string \<Rightarrow> state \<Rightarrow> string result \<times> state" where
  "update_job_status B job_id status st =
     (case ObjectId B job_id of
        None \<Rightarrow> (Inl (InvalidId job_id), st)
      | Some j \<Rightarrow>
          (let r = update_one (jobs st) j [(''status'', Str status)]
           in if snd r = 0
              then (Inl (HTTPException 404 ''Job not found''), st\<lparr>jobs := fst r\<rparr>)
              else (Inr (''Job status updated to '' @ status), st\<lparr>jobs := fst r\<rparr>)))"

text \<open>
  The query parameter \<open>status\<close> of \<open>update_job_status\<close> is declared with the pattern
  \<open>^(Open|Closed|Filled)$\<close>. The framework checks a declared parameter before it calls
  the function and answers 422 when the whole value does not match; the route
  \<open>PUT /jobs/{job_id}/status\<close> is that check followed by the function. The pattern is a
  choice between three literals, anchored at both ends.
\<close>

datatype regex = Lit string | Alt regex regex

fun rest_after :: "regex \<Rightarrow> string \<Rightarrow> string list" where
  "rest_after (Lit l) s = (if take (length l) s = l then [drop (length l) s] else [])"
| "rest_after (Alt r1 r2) s = rest_after r1 s @ rest_after r2 s"

definition anchored_match :: "regex \<Rightarrow> string \<Rightarrow> bool" where
  "anchored_match r s = ([] \<in> set (rest_after r s))"

definition status_pattern :: regex where
  "status_pattern = Alt (Lit ''Open'') (Alt (Lit ''Closed'') (Lit ''Filled''))"

definition Query :: "regex \<Rightarrow> string \<Rightarrow> string result" where
  "Query pattern v = (if anchored_match pattern v then Inr v else Inl RequestValidationError)"

definition put_jobs_status :: "bson \<Rightarrow> string \<Rightarrow> string \<Rightarrow> state \<Rightarrow> string result \<times> state" where
  "put_jobs_status B job_id status st =
     (case Query status_pattern status of
        Inl e \<Rightarrow> (Inl e, st)
      | Inr v \<Rightarrow> update_job_status B job_id v st)"

definition root :: "state \<Rightarrow> string result \<times> state" where
  "root st = (Inr ''Welcome to the Recruitment System API'', st)"

subsection \<open>Requests and reachable states\<close>

text \<open>
  A request names a handler and its arguments (for a signup also the salt the hash
  draws); \<open>after\<close> is the state the handler leaves.
  The states the service can reach start from a store without candidates (the other
  collections hold whatever was put there out of band) and follow any sequence of
  requests.
\<close>

datatype request =
    Root
  | Signup string Candidate
  | Login LoginData
  | Apply string string
  | UploadResume string string string
  | AdminLogin LoginData
  | ViewCandidates
  | ViewResumes
  | GetJobs
  | GetJob string
  | PostJob Job
  | UpdateJob string Job
  | UpdateJobStatus string string
  | GetCandidates
  | GetCandidate string

fun after :: "bson \<Rightarrow> CryptContext \<Rightarrow> request \<Rightarrow> state \<Rightarrow> state" where
  "after B P Root st = snd (root st)"
| "after B P (Signup salt candidate) st = snd (signup B P salt candidate st)"
| "after B P (Login login_data) st = snd (login P login_data st)"
| "after B P (Apply job_id candidate_email) st = snd (apply_for_job B job_id candidate_email st)"
| "after B P (UploadResume candidate_id filename file) st =
     snd (upload_resume B candidate_id filename file st)"
| "after B P (AdminLogin login_data) st = snd (admin_login P login_data st)"
| "after B P ViewCandidates st = snd (view_candidates B st)"
| "after B P ViewResumes st = snd (view_resumes st)"
| "after B P GetJobs st = snd (get_jobs B st)"
| "after B P (GetJob job_id) st = snd (get_job B job_id st)"
| "after B P (PostJob job) st = snd (post_job B job st)"
| "after B P (UpdateJob job_id job) st = snd (update_job B job_id job st)"
| "after B P (UpdateJobStatus job_id status) st = snd (put_jobs_status B job_id status st)"
| "after B P GetCandidates st = snd (get_candidates B st)"
| "after B P (GetCandidate candidate_id) st = snd (get_candidate B candidate_id st)"

inductive reachable :: "bson \<Rightarrow> CryptContext \<Rightarrow> state \<Rightarrow> bool" for B P where
  initial: "candidates st = [] \<Longrightarrow> reachable B P st"
| request: "reachable B P st \<Longrightarrow> reachable B P (after B P rq st)"

subsection \<open>An instance of the libraries\<close>

text \<open>
  To run the handlers on examples the two libraries need values. An identifier is
  written as 24 hexadecimal digits; \<open>ObjectId\<close> reads that form and \<open>str\<close> prints it in
  lower case. The password context stands in for the bcrypt context of the source with
  the behaviour a handler can observe: a password with a NUL character is refused with
  \<open>PasswordValueError\<close>, a hash carries the \<open>$2b$\<close> mark, a hash made from
  a password verifies that password and no other, a stored \<open>None\<close> verifies nothing, and
  a string without the mark is a hash no scheme of the context identifies, for which
  \<open>verify\<close> raises \<open>UnknownHashError\<close>.
\<close>

definition hex_value :: "char \<Rightarrow> nat option" where
  "hex_value c =
     (let n = (of_char c :: nat)
      in if 48 \<le> n \<and> n \<le> 57 then Some (n - 48)
         else if 97 \<le> n \<and> n \<le> 102 then Some (n - 87)
         else if 65 \<le> n \<and> n \<le> 70 then Some (n - 55)
         else None)"

fun fromhex :: "nat \<Rightarrow> string \<Rightarrow> nat option" where
  "fromhex acc [] = Some acc"
| "fromhex acc (c # cs) =
     (case hex_value c of None \<Rightarrow> None | Some d \<Rightarrow> fromhex (16 * acc + d) cs)"

fun hex :: "nat \<Rightarrow> nat \<Rightarrow> string" where
  "hex 0 n = []"
| "hex (Suc k) n = hex k (n div 16) @ [''0123456789abcdef'' ! (n mod 16)]"

definition bson_lib :: bson where
  "bson_lib =
     \<lparr>ObjectId = (\<lambda>s. if length s = 24 then fromhex 0 s else None),
      str = hex 24\<rparr>"

definition passlib_ctx :: CryptContext where
  "passlib_ctx =
     \<lparr>hash = (\<lambda>salt password.
         if CHR 0x00 \<in> set password then Inl PasswordValueError
         else Inr (''$2b$'' @ salt @ ''$'' @ rev password)),
      verify = (\<lambda>plain hashed.
         case hashed of
           Null \<Rightarrow> Inr False
         | Str h \<Rightarrow>
             if take 4 h = ''$2b$''
             then Inr (dropWhile (\<lambda>c. c \<noteq> CHR ''$'') (drop 4 h) = ''$'' @ rev plain)
             else Inl UnknownHashError
         | _ \<Rightarrow> Inl TypeError)\<rparr>"

subsection \<open>Example data\<close>

text \<open>
  The empty store, the candidate of the signup example (\<open>a@x.com\<close>, password \<open>p1\<close>,
  name \<open>A\<close>) with the document her signup stores, and a store whose only administrator
  was entered by hand with a \<open>password\<close> field and no \<open>hashed_password\<close>.
\<close>

definition st0 :: state where
  "st0 = \<lparr>candidates = [], admins = [], jobs = [], applications = [], resumes = []\<rparr>"

definition alice :: Candidate where
  "alice = \<lparr>email = ''a@x.com'', password = ''p1'', name = ''A''\<rparr>"

definition alice_doc :: doc where
  "alice_doc =
     \<lparr>oid = 1, content = [(''email'', Str ''a@x.com''), (''name'', Str ''A''),
                          (''hashed_password'', Str ''$2b$s1$1p'')]\<rparr>"

definition st1 :: state where
  "st1 = st0\<lparr>candidates := [alice_doc]\<rparr>"

definition legacy_admin :: state where
  "legacy_admin =
     st0\<lparr>admins := [\<lparr>oid = 1, content = [(''email'', Str ''root@x.com''),
                                         (''password'', Str ''admin123'')]\<rparr>]\<rparr>"

text \<open>
  A store with the candidate and one job, and a store with 101 candidates who all have
  uploaded a resume: a hundred numbered applicants and, stored last, one more.
\<close>

definition engineer :: Job where
  "engineer =
     \<lparr>title = ''Engineer'', description = ''Builds things'', department = ''R and D'',
      location = ''Pune'', employment_type = ''Full-time'', salary_range = None,
      application_deadline = Some ''2025-01-31'', required_skills = [''python''],
      additional_info = None\<rparr>"

definition st2 :: state where
  "st2 = st1\<lparr>jobs := [\<lparr>oid = 1, content = Job_dict engineer\<rparr>]\<rparr>"

definition applicant :: "nat \<Rightarrow> doc" where
  "applicant i =
     \<lparr>oid = i,
      content = [(''email'', Str (hex 3 i @ ''@x.com'')), (''name'', Str (hex 3 i)),
                 (''hashed_password'', Str (''$2b$s1$'' @ hex 3 i)),
                 (''resume_path'', Str (''resumes/'' @ hex 24 i @ ''_cv.pdf''))]\<rparr>"

definition applicants :: collection where
  "applicants = map applicant [1..<101]"

definition zoe_doc :: doc where
  "zoe_doc =
     \<lparr>oid = 101,
      content = [(''email'', Str ''zoe@example.org''), (''name'', Str ''Zoe''),
                 (''hashed_password'', Str ''$2b$s1$eoz''),
                 (''resume_path'', Str ''resumes/000000000000000000000065_cv.pdf'')]\<rparr>"

definition crowd :: state where
  "crowd = st0\<lparr>candidates := applicants @ [zoe_doc]\<rparr>"

text \<open>The dictionary \<open>view_resumes\<close> builds for a candidate document.\<close>

definition resume_of :: "doc \<Rightarrow> dict" where
  "resume_of d = [(''email'', get d ''email''), (''resume_path'', get d ''resume_path'')]"

section \<open>Properties\<close>

subsection \<open>The store\<close>

lemma find_one_None_iff: "find_one c k q = None \<longleftrightarrow> (\<forall>d\<in>set c. \<not> matches k q d)"
  by (auto simp: find_one_def find_None_iff)

lemma find_one_Some_iff: "(\<exists>d. find_one c k q = Some d) \<longleftrightarrow> (\<exists>d\<in>set c. matches k q d)"
  using find_one_None_iff [of c k q] by auto

lemma find_one_id_None_iff: "find_one_id c i = None \<longleftrightarrow> (\<forall>d\<in>set c. oid d \<noteq> i)"
  by (auto simp: find_one_id_def find_None_iff)

lemma fold_max_ge: "(a::nat) \<le> fold max xs a"
  by (induction xs arbitrary: a) (auto intro: order_trans [OF max.cobounded2])

lemma fold_max_upper: "x \<in> set xs \<Longrightarrow> (x::nat) \<le> fold max xs a"
proof (induction xs arbitrary: a)
  case Nil
  then show ?case by simp
next
  case (Cons y ys)
  show ?case
  proof (cases "x = y")
    case True
    have "y \<le> max y a" by simp
    also have "\<dots> \<le> fold max ys (max y a)" by (rule fold_max_ge)
    finally show ?thesis using True by simp
  next
    case False
    with Cons show ?thesis by simp
  qed
qed

lemma new_id_fresh: "d \<in> set c \<Longrightarrow> oid d \<noteq> new_id c"
proof
  assume d: "d \<in> set c" and eq: "oid d = new_id c"
  from d have "oid d \<le> fold max (map oid c) 0" by (intro fold_max_upper) simp
  with eq show False by (simp add: new_id_def)
qed

lemma update_one_unmatched: "snd (update_one c i s) = 0 \<Longrightarrow> fst (update_one c i s) = c"
  by (induction c) (auto split: if_splits)

lemma update_one_matched_iff: "snd (update_one c i s) = 0 \<longleftrightarrow> (\<forall>d\<in>set c. oid d \<noteq> i)"
  by (induction c) auto

lemma comprehension_length: "comprehension f xs = Inr ys \<Longrightarrow> length ys = length xs"
  by (induction xs arbitrary: ys) (auto split: sum.splits)

lemma comprehension_map: "(\<forall>x\<in>set xs. f x = Inr (g x)) \<Longrightarrow> comprehension f xs = Inr (map g xs)"
  by (induction xs) auto

lemma new_id_Nil: "new_id [] = 1"
  by (simp add: new_id_def)

lemma str_bson_lib_1: "str bson_lib (Suc 0) = ''000000000000000000000001''"
  by code_simp

lemma ObjectId_bson_lib_1: "ObjectId bson_lib ''000000000000000000000001'' = Some 1"
  by code_simp

lemma ObjectId_bson_lib_xyz: "ObjectId bson_lib ''xyz'' = None"
  by (simp add: bson_lib_def)

lemma matches_alice_doc: "matches ''email'' (Str ''a@x.com'') alice_doc"
  by (simp add: matches_def alice_doc_def)

subsection \<open>Signup\<close>

text \<open>
  C1. Signup with an email that some candidate document already has fails with
  \<open>HTTPException 400\<close> and leaves the state as it was. With an email no candidate
  document has, the password is hashed: when the hash raises, that exception is the
  outcome and nothing is stored; when it returns, signup appends one document with exactly
  the fields \<open>email\<close>, \<open>name\<close> and \<open>hashed_password\<close> (the hash) under an identifier no
  other candidate has, and answers with that identifier, the email and the name. A
  second signup with the same email then fails with 400, changes nothing, and exactly one
  candidate document has the email.
\<close>

theorem signup_conflict_or_insert:
  "((\<exists>d\<in>set (candidates st). matches ''email'' (Str (email c)) d) \<longrightarrow>
      signup B P salt c st = (Inl (HTTPException 400 ''Email already registered''), st)) \<and>
   ((\<forall>d\<in>set (candidates st). \<not> matches ''email'' (Str (email c)) d) \<longrightarrow>
      (\<forall>e. hash P salt (password c) = Inl e \<longrightarrow> signup B P salt c st = (Inl e, st)) \<and>
      (\<forall>h. hash P salt (password c) = Inr h \<longrightarrow>
         signup B P salt c st =
           (Inr \<lparr>id_str = str B (new_id (candidates st)), resp_email = email c,
                 resp_name = name c\<rparr>,
            st\<lparr>candidates := candidates st @
                 [\<lparr>oid = new_id (candidates st),
                   content = [(''email'', Str (email c)), (''name'', Str (name c)),
                              (''hashed_password'', Str h)]\<rparr>]\<rparr>) \<and>
         (\<forall>d\<in>set (candidates st). oid d \<noteq> new_id (candidates st)) \<and>
         (\<forall>salt' c'. email c' = email c \<longrightarrow>
            signup B P salt' c' (snd (signup B P salt c st)) =
              (Inl (HTTPException 400 ''Email already registered''),
               snd (signup B P salt c st)) \<and>
            length (filter (matches ''email'' (Str (email c)))
                      (candidates (snd (signup B P salt' c' (snd (signup B P salt c st)))))) =
              1)))"
proof -
  have conflict: "signup B P salt c st =
      (Inl (HTTPException 400 ''Email already registered''), st)"
    if "\<exists>d\<in>set (candidates st). matches ''email'' (Str (email c)) d"
  proof -
    from that obtain d where "find_one (candidates st) ''email'' (Str (email c)) = Some d"
      using find_one_Some_iff by blast
    then show ?thesis by (simp add: signup_def)
  qed
  have raises: "signup B P salt c st = (Inl e, st)"
    if "\<forall>d\<in>set (candidates st). \<not> matches ''email'' (Str (email c)) d"
      and "hash P salt (password c) = Inl e" for e
  proof -
    from that(1) have "find_one (candidates st) ''email'' (Str (email c)) = None"
      by (simp add: find_one_None_iff)
    with that(2) show ?thesis by (simp add: signup_def get_password_hash_def)
  qed
  have inserts: "signup B P salt c st =
           (Inr \<lparr>id_str = str B (new_id (candidates st)), resp_email = email c,
                 resp_name = name c\<rparr>,
            st\<lparr>candidates := candidates st @
                 [\<lparr>oid = new_id (candidates st),
                   content = [(''email'', Str (email c)), (''name'', Str (name c)),
                              (''hashed_password'', Str h)]\<rparr>]\<rparr>) \<and>
         (\<forall>d\<in>set (candidates st). oid d \<noteq> new_id (candidates st)) \<and>
         (\<forall>salt' c'. email c' = email c \<longrightarrow>
            signup B P salt' c' (snd (signup B P salt c st)) =
              (Inl (HTTPException 400 ''Email already registered''),
               snd (signup B P salt c st)) \<and>
            length (filter (matches ''email'' (Str (email c)))
                      (candidates (snd (signup B P salt' c' (snd (signup B P salt c st)))))) =
              1)"
    if none: "\<forall>d\<in>set (candidates st). \<not> matches ''email'' (Str (email c)) d"
      and h: "hash P salt (password c) = Inr h" for h
  proof -
    from none have f: "find_one (candidates st) ''email'' (Str (email c)) = None"
      by (simp add: find_one_None_iff)
    let ?d = "\<lparr>oid = new_id (candidates st),
                  content = [(''email'', Str (email c)), (''name'', Str (name c)),
                             (''hashed_password'', Str h)]\<rparr>"
    let ?st = "st\<lparr>candidates := candidates st @ [?d]\<rparr>"
    have s: "signup B P salt c st =
          (Inr \<lparr>id_str = str B (new_id (candidates st)), resp_email = email c,
                resp_name = name c\<rparr>, ?st)"
      using f h by (simp add: signup_def insert_one_def exclude_def CandidateInDB_dict_def
          get_password_hash_def)
    have fresh: "\<forall>d\<in>set (candidates st). oid d \<noteq> new_id (candidates st)"
      using new_id_fresh by blast
    have m: "matches ''email'' (Str (email c)) ?d"
      by (simp add: matches_def)
    have again: "signup B P salt' c' (snd (signup B P salt c st)) =
           (Inl (HTTPException 400 ''Email already registered''), snd (signup B P salt c st)) \<and>
         length (filter (matches ''email'' (Str (email c)))
                   (candidates (snd (signup B P salt' c' (snd (signup B P salt c st)))))) = 1"
      if e: "email c' = email c" for salt' and c' :: Candidate
    proof -
      have "\<exists>d\<in>set (candidates ?st). matches ''email'' (Str (email c')) d"
        using m e by simp
      then obtain d where "find_one (candidates ?st) ''email'' (Str (email c')) = Some d"
        using find_one_Some_iff by blast
      then have r: "signup B P salt' c' ?st =
          (Inl (HTTPException 400 ''Email already registered''), ?st)"
        by (simp add: signup_def)
      have "filter (matches ''email'' (Str (email c))) (candidates st) = []"
        using none by (simp add: filter_empty_conv)
      then have "length (filter (matches ''email'' (Str (email c))) (candidates ?st)) = 1"
        using m by simp
      with r s show ?thesis by simp
    qed
    from s fresh again show ?thesis by blast
  qed
  from conflict raises inserts show ?thesis by blast
qed

text \<open>
  An email no candidate has and a password the hash refuses: no response, nothing stored.
\<close>

theorem signup_counterexample:
  "signup bson_lib passlib_ctx ''s1''
     \<lparr>email = ''a@x.com'', password = [CHR 0x00], name = ''A''\<rparr> st0 =
     (Inl PasswordValueError, st0)"
  by (simp add: signup_def st0_def find_one_def get_password_hash_def passlib_ctx_def)

theorem signup_conflict_or_insert_witness:
  "signup bson_lib passlib_ctx ''s1'' alice st0 =
     (Inr \<lparr>id_str = ''000000000000000000000001'', resp_email = ''a@x.com'',
           resp_name = ''A''\<rparr>, st1) \<and>
   signup bson_lib passlib_ctx ''s2'' (alice\<lparr>password := ''p2''\<rparr>) st1 =
     (Inl (HTTPException 400 ''Email already registered''), st1) \<and>
   length (filter (matches ''email'' (Str ''a@x.com'')) (candidates st1)) = 1 \<and>
   signup bson_lib passlib_ctx ''s1'' (alice\<lparr>password := [CHR 0x00]\<rparr>) st0 =
     (Inl PasswordValueError, st0)"
proof -
  have none: "\<forall>d\<in>set (candidates st0). \<not> matches ''email'' (Str (email alice)) d"
    by (simp add: st0_def)
  have none': "\<forall>d\<in>set (candidates st0).
      \<not> matches ''email'' (Str (email (alice\<lparr>password := [CHR 0x00]\<rparr>))) d"
    by (simp add: st0_def)
  have some: "\<exists>d\<in>set (candidates st1). matches ''email'' (Str (email alice)) d"
    using matches_alice_doc by (simp add: st1_def st0_def alice_def)
  have h: "hash passlib_ctx ''s1'' (password alice) = Inr ''$2b$s1$1p''"
    by (simp add: passlib_ctx_def alice_def)
  have h': "hash passlib_ctx ''s1'' (password (alice\<lparr>password := [CHR 0x00]\<rparr>)) =
      Inl PasswordValueError"
    by (simp add: passlib_ctx_def)
  have first: "signup bson_lib passlib_ctx ''s1'' alice st0 =
     (Inr \<lparr>id_str = ''000000000000000000000001'', resp_email = ''a@x.com'',
           resp_name = ''A''\<rparr>, st1)"
    using signup_conflict_or_insert [of st0 alice bson_lib passlib_ctx "''s1''"] none h
    by (simp add: st0_def st1_def alice_def alice_doc_def new_id_Nil str_bson_lib_1)
  have second: "signup bson_lib passlib_ctx ''s2'' (alice\<lparr>password := ''p2''\<rparr>) st1 =
     (Inl (HTTPException 400 ''Email already registered''), st1)"
    using signup_conflict_or_insert
      [of st1 "alice\<lparr>password := ''p2''\<rparr>" bson_lib passlib_ctx "''s2''"] some
    by simp
  have third: "signup bson_lib passlib_ctx ''s1'' (alice\<lparr>password := [CHR 0x00]\<rparr>) st0 =
     (Inl PasswordValueError, st0)"
    using signup_conflict_or_insert
      [of st0 "alice\<lparr>password := [CHR 0x00]\<rparr>" bson_lib passlib_ctx "''s1''"] none' h'
    by simp
  have "length (filter (matches ''email'' (Str ''a@x.com'')) (candidates st1)) = 1"
    using matches_alice_doc by (simp add: st1_def st0_def)
  with first second third show ?thesis by simp
qed

subsection \<open>Login\<close>

text \<open>
  C2. Candidate login succeeds exactly when a document with the email is found, the
  document has a \<open>hashed_password\<close>, and the verification of the supplied password
  against it returns true. It fails with \<open>HTTPException 400\<close> when no document is found
  or the verification returns false. A found document without \<open>hashed_password\<close> raises
  \<open>KeyError\<close>, and an exception of the verification leaves the handler as it is. The
  state never changes. Admin login does the same over the \<open>admins\<close> collection.
\<close>

theorem login_outcomes:
  "(fst (login P ld st) = Inr ''Login successful'' \<longleftrightarrow>
      (\<exists>d h. find_one (candidates st) ''email'' (Str (login_email ld)) = Some d \<and>
         map_of (content d) ''hashed_password'' = Some h \<and>
         verify P (login_password ld) h = Inr True)) \<and>
   (find_one (candidates st) ''email'' (Str (login_email ld)) = None \<or>
    (\<exists>d h. find_one (candidates st) ''email'' (Str (login_email ld)) = Some d \<and>
       map_of (content d) ''hashed_password'' = Some h \<and>
       verify P (login_password ld) h = Inr False) \<longrightarrow>
      login P ld st = (Inl (HTTPException 400 ''Invalid email or password''), st)) \<and>
   ((\<exists>d. find_one (candidates st) ''email'' (Str (login_email ld)) = Some d \<and>
       map_of (content d) ''hashed_password'' = None) \<longrightarrow>
      login P ld st = (Inl (KeyError ''hashed_password''), st)) \<and>
   (\<forall>e. (\<exists>d h. find_one (candidates st) ''email'' (Str (login_email ld)) = Some d \<and>
       map_of (content d) ''hashed_password'' = Some h \<and>
       verify P (login_password ld) h = Inl e) \<longrightarrow>
      login P ld st = (Inl e, st)) \<and>
   (fst (admin_login P ld st) = Inr ''Admin login successful'' \<longleftrightarrow>
      (\<exists>d h. find_one (admins st) ''email'' (Str (login_email ld)) = Some d \<and>
         map_of (content d) ''hashed_password'' = Some h \<and>
         verify P (login_password ld) h = Inr True)) \<and>
   (find_one (admins st) ''email'' (Str (login_email ld)) = None \<or>
    (\<exists>d h. find_one (admins st) ''email'' (Str (login_email ld)) = Some d \<and>
       map_of (content d) ''hashed_password'' = Some h \<and>
       verify P (login_password ld) h = Inr False) \<longrightarrow>
      admin_login P ld st = (Inl (HTTPException 400 ''Invalid email or password''), st)) \<and>
   ((\<exists>d. find_one (admins st) ''email'' (Str (login_email ld)) = Some d \<and>
       map_of (content d) ''hashed_password'' = None) \<longrightarrow>
      admin_login P ld st = (Inl (KeyError ''hashed_password''), st)) \<and>
   (\<forall>e. (\<exists>d h. find_one (admins st) ''email'' (Str (login_email ld)) = Some d \<and>
       map_of (content d) ''hashed_password'' = Some h \<and>
       verify P (login_password ld) h = Inl e) \<longrightarrow>
      admin_login P ld st = (Inl e, st)) \<and>
   snd (login P ld st) = st \<and> snd (admin_login P ld st) = st"
  by (auto simp: login_def admin_login_def getitem_def verify_password_def
      split: option.splits sum.splits)

text \<open>
  An administrator document that has the email but no \<open>hashed_password\<close> field: the
  login is neither accepted nor refused with 400.
\<close>

theorem admin_login_counterexample:
  "admin_login passlib_ctx \<lparr>login_email = ''root@x.com'', login_password = ''admin123''\<rparr>
     legacy_admin = (Inl (KeyError ''hashed_password''), legacy_admin)"
  by (simp add: admin_login_def legacy_admin_def st0_def find_one_def matches_def getitem_def)

lemma find_alice: "find_one (candidates st1) ''email'' (Str ''a@x.com'') = Some alice_doc"
  using matches_alice_doc by (simp add: find_one_def st1_def st0_def)

lemma find_nobody: "find_one (candidates st1) ''email'' (Str ''b@x.com'') = None"
  by (simp add: find_one_def st1_def st0_def matches_def alice_doc_def)

theorem login_outcomes_witness:
  "login passlib_ctx \<lparr>login_email = ''a@x.com'', login_password = ''p1''\<rparr> st1 =
     (Inr ''Login successful'', st1) \<and>
   login passlib_ctx \<lparr>login_email = ''a@x.com'', login_password = ''wrong''\<rparr> st1 =
     (Inl (HTTPException 400 ''Invalid email or password''), st1) \<and>
   login passlib_ctx \<lparr>login_email = ''b@x.com'', login_password = ''p1''\<rparr> st1 =
     (Inl (HTTPException 400 ''Invalid email or password''), st1) \<and>
   admin_login passlib_ctx \<lparr>login_email = ''a@x.com'', login_password = ''p1''\<rparr> st1 =
     (Inl (HTTPException 400 ''Invalid email or password''), st1)"
proof -
  have h: "map_of (content alice_doc) ''hashed_password'' = Some (Str ''$2b$s1$1p'')"
    by (simp add: alice_doc_def)
  have v1: "verify passlib_ctx ''p1'' (Str ''$2b$s1$1p'') = Inr True"
    by (simp add: passlib_ctx_def)
  have v2: "verify passlib_ctx ''wrong'' (Str ''$2b$s1$1p'') = Inr False"
    by (simp add: passlib_ctx_def)
  have a: "find_one (admins st1) ''email'' (Str ''a@x.com'') = None"
    by (simp add: find_one_def st1_def st0_def)
  have "fst (login passlib_ctx \<lparr>login_email = ''a@x.com'', login_password = ''p1''\<rparr> st1) =
      Inr ''Login successful''"
    using login_outcomes
      [of passlib_ctx "\<lparr>login_email = ''a@x.com'', login_password = ''p1''\<rparr>" st1]
      find_alice h v1 by simp
  moreover have "snd (login passlib_ctx \<lparr>login_email = ''a@x.com'', login_password = ''p1''\<rparr> st1) = st1"
    by (simp add: login_def split: option.splits sum.splits)
  ultimately have one: "login passlib_ctx \<lparr>login_email = ''a@x.com'', login_password = ''p1''\<rparr> st1 =
     (Inr ''Login successful'', st1)"
    by (simp add: prod_eq_iff)
  have two: "login passlib_ctx \<lparr>login_email = ''a@x.com'', login_password = ''wrong''\<rparr> st1 =
     (Inl (HTTPException 400 ''Invalid email or password''), st1)"
    using login_outcomes
      [of passlib_ctx "\<lparr>login_email = ''a@x.com'', login_password = ''wrong''\<rparr>" st1]
      find_alice h v2 by simp
  have three: "login passlib_ctx \<lparr>login_email = ''b@x.com'', login_password = ''p1''\<rparr> st1 =
     (Inl (HTTPException 400 ''Invalid email or password''), st1)"
    using login_outcomes
      [of passlib_ctx "\<lparr>login_email = ''b@x.com'', login_password = ''p1''\<rparr>" st1]
      find_nobody by simp
  have four: "admin_login passlib_ctx \<lparr>login_email = ''a@x.com'', login_password = ''p1''\<rparr> st1 =
     (Inl (HTTPException 400 ''Invalid email or password''), st1)"
    using login_outcomes
      [of passlib_ctx "\<lparr>login_email = ''a@x.com'', login_password = ''p1''\<rparr>" st1]
      a by simp
  from one two three four show ?thesis by simp
qed


subsection \<open>Apply\<close>

lemma st2_candidates: "candidates st2 = [alice_doc]"
  by (simp add: st2_def st1_def st0_def)

lemma ObjectId_bson_lib_2: "ObjectId bson_lib ''000000000000000000000002'' = Some 2"
  by code_simp

text \<open>
  C3. Apply with a \<open>job_id\<close> that \<open>ObjectId\<close> rejects raises \<open>InvalidId\<close>. With an
  identifier that no job document has it fails with \<open>HTTPException 404\<close>; with the
  identifier of a job and an email no candidate document has it fails with
  \<open>HTTPException 404\<close>. In these three cases the state, and so the \<open>applications\<close>
  collection, is unchanged. Otherwise it succeeds and appends exactly one document
  \<open>{job_id, candidate_email}\<close> to \<open>applications\<close>.
\<close>

theorem apply_for_job_outcomes:
  "(ObjectId B job_id = None \<longrightarrow>
      apply_for_job B job_id e st = (Inl (InvalidId job_id), st)) \<and>
   (\<forall>j. ObjectId B job_id = Some j \<longrightarrow>
      ((\<forall>d\<in>set (jobs st). oid d \<noteq> j) \<longrightarrow>
         apply_for_job B job_id e st = (Inl (HTTPException 404 ''Job not found''), st)) \<and>
      ((\<exists>d\<in>set (jobs st). oid d = j) \<and>
       (\<forall>d\<in>set (candidates st). \<not> matches ''email'' (Str e) d) \<longrightarrow>
         apply_for_job B job_id e st = (Inl (HTTPException 404 ''Candidate not found''), st)) \<and>
      ((\<exists>d\<in>set (jobs st). oid d = j) \<and>
       (\<exists>d\<in>set (candidates st). matches ''email'' (Str e) d) \<longrightarrow>
         apply_for_job B job_id e st =
           (Inr ''Job application successful'',
            st\<lparr>applications := applications st @
                 [\<lparr>oid = new_id (applications st),
                   content = [(''job_id'', Oid j), (''candidate_email'', Str e)]\<rparr>]\<rparr>)))"
proof -
  have a: "\<And>j. (\<forall>d\<in>set (jobs st). oid d \<noteq> j) \<longleftrightarrow> find_one_id (jobs st) j = None"
    by (simp add: find_one_id_None_iff)
  have b: "(\<forall>d\<in>set (candidates st). \<not> matches ''email'' (Str e) d) \<longleftrightarrow>
      find_one (candidates st) ''email'' (Str e) = None"
    by (simp add: find_one_None_iff)
  have a': "\<And>j. (\<exists>d\<in>set (jobs st). oid d = j) \<longleftrightarrow> find_one_id (jobs st) j \<noteq> None"
    by (auto simp: find_one_id_None_iff)
  have b': "(\<exists>d\<in>set (candidates st). matches ''email'' (Str e) d) \<longleftrightarrow>
      find_one (candidates st) ''email'' (Str e) \<noteq> None"
    by (auto simp: find_one_None_iff)
  show ?thesis
    unfolding a a' b b' by (auto simp: apply_for_job_def insert_one_def)
qed

text \<open>A \<open>job_id\<close> that is not an identifier, with the email of a candidate.\<close>

theorem apply_for_job_counterexample:
  "apply_for_job bson_lib ''xyz'' ''a@x.com'' st2 = (Inl (InvalidId ''xyz''), st2)"
  by (simp add: apply_for_job_def bson_lib_def)

theorem apply_for_job_outcomes_witness:
  "apply_for_job bson_lib ''xyz'' ''a@x.com'' st2 = (Inl (InvalidId ''xyz''), st2) \<and>
   apply_for_job bson_lib ''000000000000000000000002'' ''a@x.com'' st2 =
     (Inl (HTTPException 404 ''Job not found''), st2) \<and>
   apply_for_job bson_lib ''000000000000000000000001'' ''b@x.com'' st2 =
     (Inl (HTTPException 404 ''Candidate not found''), st2) \<and>
   apply_for_job bson_lib ''000000000000000000000001'' ''a@x.com'' st2 =
     (Inr ''Job application successful'',
      st2\<lparr>applications :=
             [\<lparr>oid = 1, content = [(''job_id'', Oid 1),
                                   (''candidate_email'', Str ''a@x.com'')]\<rparr>]\<rparr>)"
proof -
  have j: "jobs st2 = [\<lparr>oid = 1, content = Job_dict engineer\<rparr>]"
    by (simp add: st2_def)
  have ap: "applications st2 = []"
    by (simp add: st2_def st1_def st0_def)
  have nb: "\<not> matches ''email'' (Str ''b@x.com'') alice_doc"
    by (simp add: matches_def alice_doc_def)
  have one: "apply_for_job bson_lib ''xyz'' ''a@x.com'' st2 = (Inl (InvalidId ''xyz''), st2)"
    using apply_for_job_outcomes [of bson_lib "''xyz''" "''a@x.com''" st2] ObjectId_bson_lib_xyz
    by simp
  have two: "apply_for_job bson_lib ''000000000000000000000002'' ''a@x.com'' st2 =
     (Inl (HTTPException 404 ''Job not found''), st2)"
    using apply_for_job_outcomes [of bson_lib "''000000000000000000000002''" "''a@x.com''" st2]
      ObjectId_bson_lib_2 j by simp
  have three: "apply_for_job bson_lib ''000000000000000000000001'' ''b@x.com'' st2 =
     (Inl (HTTPException 404 ''Candidate not found''), st2)"
    using apply_for_job_outcomes [of bson_lib "''000000000000000000000001''" "''b@x.com''" st2]
      ObjectId_bson_lib_1 j st2_candidates nb by simp
  have four: "apply_for_job bson_lib ''000000000000000000000001'' ''a@x.com'' st2 =
     (Inr ''Job application successful'',
      st2\<lparr>applications :=
             [\<lparr>oid = 1, content = [(''job_id'', Oid 1),
                                   (''candidate_email'', Str ''a@x.com'')]\<rparr>]\<rparr>)"
    using apply_for_job_outcomes [of bson_lib "''000000000000000000000001''" "''a@x.com''" st2]
      ObjectId_bson_lib_1 j st2_candidates matches_alice_doc ap by (simp add: new_id_Nil)
  from one two three four show ?thesis by simp
qed

text \<open>
  C8. For a \<open>job_id\<close> that names an existing job and the email of an existing candidate,
  applying twice succeeds both times and leaves the \<open>applications\<close> collection with two
  more documents, both \<open>{job_id, candidate_email}\<close>, under two different identifiers
  that no earlier application has.
\<close>

theorem apply_twice:
  assumes "ObjectId B job_id = Some j"
    and "\<exists>d\<in>set (jobs st). oid d = j"
    and "\<exists>d\<in>set (candidates st). matches ''email'' (Str e) d"
  shows "\<exists>a1 a2.
      fst (apply_for_job B job_id e st) = Inr ''Job application successful'' \<and>
      fst (apply_for_job B job_id e (snd (apply_for_job B job_id e st))) =
        Inr ''Job application successful'' \<and>
      applications (snd (apply_for_job B job_id e (snd (apply_for_job B job_id e st)))) =
        applications st @ [a1, a2] \<and>
      content a1 = [(''job_id'', Oid j), (''candidate_email'', Str e)] \<and>
      content a2 = [(''job_id'', Oid j), (''candidate_email'', Str e)] \<and>
      oid a1 \<noteq> oid a2 \<and>
      (\<forall>d\<in>set (applications st). oid d \<noteq> oid a1 \<and> oid d \<noteq> oid a2)"
proof -
  let ?c = "[(''job_id'', Oid j), (''candidate_email'', Str e)]"
  let ?a1 = "\<lparr>oid = new_id (applications st), content = ?c\<rparr>"
  let ?a2 = "\<lparr>oid = new_id (applications st @ [?a1]), content = ?c\<rparr>"
  let ?st1 = "st\<lparr>applications := applications st @ [?a1]\<rparr>"
  from assms(2) obtain jd where jd: "find_one_id (jobs st) j = Some jd"
    using find_one_id_None_iff [of "jobs st" j] by auto
  from assms(3) obtain cd where cd: "find_one (candidates st) ''email'' (Str e) = Some cd"
    using find_one_Some_iff by blast
  have r1: "apply_for_job B job_id e st = (Inr ''Job application successful'', ?st1)"
    using assms(1) jd cd by (simp add: apply_for_job_def insert_one_def)
  have r2: "apply_for_job B job_id e ?st1 =
      (Inr ''Job application successful'', ?st1\<lparr>applications := applications ?st1 @ [?a2]\<rparr>)"
    using assms(1) jd cd by (simp add: apply_for_job_def insert_one_def)
  have f: "\<forall>d\<in>set (applications st @ [?a1]). oid d \<noteq> oid ?a2"
    using new_id_fresh [of _ "applications st @ [?a1]"] by simp
  have g: "\<forall>d\<in>set (applications st). oid d \<noteq> oid ?a1"
    using new_id_fresh [of _ "applications st"] by simp
  have "fst (apply_for_job B job_id e st) = Inr ''Job application successful'' \<and>
      fst (apply_for_job B job_id e (snd (apply_for_job B job_id e st))) =
        Inr ''Job application successful'' \<and>
      applications (snd (apply_for_job B job_id e (snd (apply_for_job B job_id e st)))) =
        applications st @ [?a1, ?a2] \<and>
      content ?a1 = ?c \<and> content ?a2 = ?c \<and> oid ?a1 \<noteq> oid ?a2 \<and>
      (\<forall>d\<in>set (applications st). oid d \<noteq> oid ?a1 \<and> oid d \<noteq> oid ?a2)"
    using r1 r2 f g by auto
  then show ?thesis by blast
qed

theorem apply_twice_witness:
  "ObjectId bson_lib ''000000000000000000000001'' = Some 1 \<and>
   (\<exists>d\<in>set (jobs st2). oid d = 1) \<and>
   (\<exists>d\<in>set (candidates st2). matches ''email'' (Str ''a@x.com'') d) \<and>
   (\<exists>a1 a2.
      fst (apply_for_job bson_lib ''000000000000000000000001'' ''a@x.com'' st2) =
        Inr ''Job application successful'' \<and>
      fst (apply_for_job bson_lib ''000000000000000000000001'' ''a@x.com''
             (snd (apply_for_job bson_lib ''000000000000000000000001'' ''a@x.com'' st2))) =
        Inr ''Job application successful'' \<and>
      applications
        (snd (apply_for_job bson_lib ''000000000000000000000001'' ''a@x.com''
                (snd (apply_for_job bson_lib ''000000000000000000000001'' ''a@x.com'' st2)))) =
        applications st2 @ [a1, a2] \<and>
      content a1 = [(''job_id'', Oid 1), (''candidate_email'', Str ''a@x.com'')] \<and>
      content a2 = [(''job_id'', Oid 1), (''candidate_email'', Str ''a@x.com'')] \<and>
      oid a1 \<noteq> oid a2 \<and>
      (\<forall>d\<in>set (applications st2). oid d \<noteq> oid a1 \<and> oid d \<noteq> oid a2))"
proof -
  have j: "\<exists>d\<in>set (jobs st2). oid d = 1"
    by (simp add: st2_def)
  have c: "\<exists>d\<in>set (candidates st2). matches ''email'' (Str ''a@x.com'') d"
    using matches_alice_doc by (simp add: st2_candidates)
  from apply_twice [OF ObjectId_bson_lib_1 j c] ObjectId_bson_lib_1 j c
  show ?thesis by blast
qed


subsection \<open>Job status\<close>

lemma anchored_status:
  "anchored_match status_pattern s \<longleftrightarrow> s \<in> {''Open'', ''Closed'', ''Filled''}"
proof -
  have lit: "\<And>l. (take (length l) s = l \<and> drop (length l) s = []) \<longleftrightarrow> s = l"
    by (metis append_Nil2 append_take_drop_id drop_all order_refl)
  show ?thesis
    using lit [of "''Open''"] lit [of "''Closed''"] lit [of "''Filled''"]
    by (auto simp: anchored_match_def status_pattern_def)
qed

lemma update_job_status_no_validation_error:
  "fst (update_job_status B job_id status st) \<noteq> Inl RequestValidationError"
  by (simp add: update_job_status_def Let_def split: option.splits)

text \<open>
  C4. The route \<open>PUT /jobs/{job_id}/status\<close> answers with the validation error (422)
  exactly when the status is none of the strings \<open>Open\<close>, \<open>Closed\<close>, \<open>Filled\<close>; it then
  leaves the state, and so every job document, unchanged. For one of the three strings
  the outcome is that of the handler.
\<close>

theorem put_jobs_status_validation:
  "(fst (put_jobs_status B job_id status st) = Inl RequestValidationError \<longleftrightarrow>
      status \<notin> {''Open'', ''Closed'', ''Filled''}) \<and>
   (status \<notin> {''Open'', ''Closed'', ''Filled''} \<longrightarrow>
      put_jobs_status B job_id status st = (Inl RequestValidationError, st)) \<and>
   (status \<in> {''Open'', ''Closed'', ''Filled''} \<longrightarrow>
      put_jobs_status B job_id status st = update_job_status B job_id status st)"
  using update_job_status_no_validation_error [of B job_id status st]
  by (auto simp: put_jobs_status_def Query_def anchored_status)

theorem put_jobs_status_validation_witness:
  "put_jobs_status bson_lib ''000000000000000000000001'' ''Pending'' st2 =
     (Inl RequestValidationError, st2) \<and>
   put_jobs_status bson_lib ''000000000000000000000001'' ''open'' st2 =
     (Inl RequestValidationError, st2) \<and>
   put_jobs_status bson_lib ''000000000000000000000001'' ''Closed'' st2 =
     update_job_status bson_lib ''000000000000000000000001'' ''Closed'' st2 \<and>
   fst (update_job_status bson_lib ''000000000000000000000001'' ''Closed'' st2) =
     Inr ''Job status updated to Closed''"
proof -
  have "fst (update_job_status bson_lib ''000000000000000000000001'' ''Closed'' st2) =
     Inr ''Job status updated to Closed''"
    by (simp add: update_job_status_def ObjectId_bson_lib_1 st2_def)
  then show ?thesis
    using put_jobs_status_validation [of bson_lib "''000000000000000000000001''" "''Pending''" st2]
      put_jobs_status_validation [of bson_lib "''000000000000000000000001''" "''open''" st2]
      put_jobs_status_validation [of bson_lib "''000000000000000000000001''" "''Closed''" st2]
    by simp
qed

subsection \<open>Password verification\<close>

text \<open>
  C5. \<open>verify_password\<close> returns what the \<open>verify\<close> of the password context returns and
  raises what it raises, for every password and every stored value: it returns false
  exactly when the context does, and it has no handler that would turn an exception of
  the context into false.
\<close>

theorem verify_password_propagates:
  "verify_password P plain hashed = verify P plain hashed \<and>
   (verify_password P plain hashed = Inr False \<longleftrightarrow> verify P plain hashed = Inr False) \<and>
   (\<forall>e. verify_password P plain hashed = Inl e \<longleftrightarrow> verify P plain hashed = Inl e)"
  by (simp add: verify_password_def)

text \<open>A stored string that is not a hash of the context.\<close>

theorem verify_password_counterexample:
  "verify_password passlib_ctx ''p1'' (Str ''not-a-hash'') = Inl UnknownHashError"
  by (simp add: verify_password_def passlib_ctx_def)

subsection \<open>Identifiers that are not identifiers\<close>

lemma JobResponse_of_not_HTTP: "JobResponse_of i d \<noteq> Inl (HTTPException n m)"
  by (simp add: JobResponse_of_def split: option.splits prod.splits)

lemma CandidateResponse_of_not_HTTP: "CandidateResponse_of B d \<noteq> Inl (HTTPException n m)"
  by (auto simp: CandidateResponse_of_def getitem_def split: option.splits val.splits)

text \<open>
  C10. When \<open>ObjectId\<close> rejects the identifier string, each of \<open>get_job\<close>,
  \<open>get_candidate\<close>, \<open>apply_for_job\<close>, \<open>upload_resume\<close>, \<open>update_job\<close> and
  \<open>update_job_status\<close> raises \<open>InvalidId\<close> and leaves the state unchanged; it does not
  answer 404. (The route of \<open>update_job_status\<close> checks the status first, so there the
  outcome is \<open>InvalidId\<close> or the validation error.) Each of them answers 404 for its identifier only when \<open>ObjectId\<close> accepts
  the string and no document of the collection has the identifier (for \<open>apply_for_job\<close>
  this is the answer \<open>Job not found\<close>).
\<close>

theorem invalid_id_is_not_not_found:
  "(ObjectId B s = None \<longrightarrow>
      get_job B s st = (Inl (InvalidId s), st) \<and>
      get_candidate B s st = (Inl (InvalidId s), st) \<and>
      apply_for_job B s e st = (Inl (InvalidId s), st) \<and>
      upload_resume B s filename file st = (Inl (InvalidId s), st) \<and>
      update_job B s job st = (Inl (InvalidId s), st) \<and>
      update_job_status B s status st = (Inl (InvalidId s), st) \<and>
      fst (put_jobs_status B s status st) \<in> {Inl (InvalidId s), Inl RequestValidationError}) \<and>
   (\<forall>m. fst (get_job B s st) = Inl (HTTPException 404 m) \<longrightarrow>
      (\<exists>j. ObjectId B s = Some j \<and> (\<forall>d\<in>set (jobs st). oid d \<noteq> j))) \<and>
   (\<forall>m. fst (get_candidate B s st) = Inl (HTTPException 404 m) \<longrightarrow>
      (\<exists>j. ObjectId B s = Some j \<and> (\<forall>d\<in>set (candidates st). oid d \<noteq> j))) \<and>
   (fst (apply_for_job B s e st) = Inl (HTTPException 404 ''Job not found'') \<longrightarrow>
      (\<exists>j. ObjectId B s = Some j \<and> (\<forall>d\<in>set (jobs st). oid d \<noteq> j))) \<and>
   (\<forall>m. fst (upload_resume B s filename file st) = Inl (HTTPException 404 m) \<longrightarrow>
      (\<exists>j. ObjectId B s = Some j \<and> (\<forall>d\<in>set (candidates st). oid d \<noteq> j))) \<and>
   (\<forall>m. fst (update_job B s job st) = Inl (HTTPException 404 m) \<longrightarrow>
      (\<exists>j. ObjectId B s = Some j \<and> (\<forall>d\<in>set (jobs st). oid d \<noteq> j))) \<and>
   (\<forall>m. fst (update_job_status B s status st) = Inl (HTTPException 404 m) \<longrightarrow>
      (\<exists>j. ObjectId B s = Some j \<and> (\<forall>d\<in>set (jobs st). oid d \<noteq> j)))"
proof (intro conjI allI impI)
  fix m
  assume "fst (get_job B s st) = Inl (HTTPException 404 m)"
  then show "\<exists>j. ObjectId B s = Some j \<and> (\<forall>d\<in>set (jobs st). oid d \<noteq> j)"
    using JobResponse_of_not_HTTP
    by (auto simp: get_job_def find_one_id_None_iff split: option.splits)
next
  fix m
  assume "fst (get_candidate B s st) = Inl (HTTPException 404 m)"
  then show "\<exists>j. ObjectId B s = Some j \<and> (\<forall>d\<in>set (candidates st). oid d \<noteq> j)"
    using CandidateResponse_of_not_HTTP
    by (auto simp: get_candidate_def find_one_id_None_iff split: option.splits)
next
  assume "fst (apply_for_job B s e st) = Inl (HTTPException 404 ''Job not found'')"
  then show "\<exists>j. ObjectId B s = Some j \<and> (\<forall>d\<in>set (jobs st). oid d \<noteq> j)"
    by (auto simp: apply_for_job_def find_one_id_None_iff split: option.splits)
next
  fix m
  assume "fst (upload_resume B s filename file st) = Inl (HTTPException 404 m)"
  then show "\<exists>j. ObjectId B s = Some j \<and> (\<forall>d\<in>set (candidates st). oid d \<noteq> j)"
    by (auto simp: upload_resume_def find_one_id_None_iff Let_def split: option.splits)
next
  fix m
  assume "fst (update_job B s job st) = Inl (HTTPException 404 m)"
  then show "\<exists>j. ObjectId B s = Some j \<and> (\<forall>d\<in>set (jobs st). oid d \<noteq> j)"
    using JobResponse_of_not_HTTP
    by (auto simp: update_job_def update_one_matched_iff Let_def split: option.splits if_splits)
next
  fix m
  assume "fst (update_job_status B s status st) = Inl (HTTPException 404 m)"
  then show "\<exists>j. ObjectId B s = Some j \<and> (\<forall>d\<in>set (jobs st). oid d \<noteq> j)"
    by (auto simp: update_job_status_def update_one_matched_iff Let_def
        split: option.splits if_splits)
qed (simp_all add: get_job_def get_candidate_def apply_for_job_def upload_resume_def
    update_job_def update_job_status_def put_jobs_status_def Query_def)

theorem invalid_id_is_not_not_found_witness:
  "get_job bson_lib ''xyz'' st2 = (Inl (InvalidId ''xyz''), st2) \<and>
   get_candidate bson_lib ''xyz'' st2 = (Inl (InvalidId ''xyz''), st2) \<and>
   apply_for_job bson_lib ''xyz'' ''a@x.com'' st2 = (Inl (InvalidId ''xyz''), st2) \<and>
   upload_resume bson_lib ''xyz'' ''cv.pdf'' ''%PDF'' st2 = (Inl (InvalidId ''xyz''), st2) \<and>
   update_job bson_lib ''xyz'' engineer st2 = (Inl (InvalidId ''xyz''), st2) \<and>
   update_job_status bson_lib ''xyz'' ''Open'' st2 = (Inl (InvalidId ''xyz''), st2) \<and>
   fst (get_job bson_lib ''000000000000000000000002'' st2) =
     Inl (HTTPException 404 ''Job not found'') \<and>
   (\<exists>j. ObjectId bson_lib ''000000000000000000000002'' = Some j \<and>
        (\<forall>d\<in>set (jobs st2). oid d \<noteq> j))"
proof -
  have g: "fst (get_job bson_lib ''000000000000000000000002'' st2) =
     Inl (HTTPException 404 ''Job not found'')"
    by (simp add: get_job_def ObjectId_bson_lib_2 find_one_id_def st2_def)
  show ?thesis
    using invalid_id_is_not_not_found
      [of bson_lib "''xyz''" st2 "''a@x.com''" "''cv.pdf''" "''%PDF''" engineer "''Open''"]
      invalid_id_is_not_not_found
      [of bson_lib "''000000000000000000000002''" st2 "''a@x.com''" "''cv.pdf''" "''%PDF''"
        engineer "''Open''"]
      ObjectId_bson_lib_xyz g
    by simp
qed


subsection \<open>Reachable states\<close>

lemma update_one_preserves:
  assumes "\<forall>d\<in>set c. Q d"
    and "\<And>d. Q d \<Longrightarrow> Q (d\<lparr>content := set_fields (content d) s\<rparr>)"
  shows "\<forall>d\<in>set (fst (update_one c i s)). Q d"
  using assms(1)
proof (induction c)
  case Nil
  then show ?case by simp
next
  case (Cons a c)
  then show ?case using assms(2) by auto
qed

lemma signup_candidates:
  "candidates (snd (signup B P salt c st)) = candidates st \<or>
   (\<exists>h. hash P salt (password c) = Inr h \<and>
      candidates (snd (signup B P salt c st)) = candidates st @
        [\<lparr>oid = new_id (candidates st),
          content = [(''email'', Str (email c)), (''name'', Str (name c)),
                     (''hashed_password'', Str h)]\<rparr>])"
  by (simp add: signup_def insert_one_def exclude_def CandidateInDB_dict_def
      get_password_hash_def split: option.splits sum.splits)

lemma upload_resume_candidates:
  "candidates (snd (upload_resume B i filename file st)) = candidates st \<or>
   (\<exists>c p. candidates (snd (upload_resume B i filename file st)) =
      fst (update_one (candidates st) c [(''resume_path'', Str p)]))"
  by (auto simp: upload_resume_def Let_def split: option.splits)

lemma after_candidates:
  "candidates (after B P rq st) = candidates st \<or>
   (\<exists>e n salt pw h. hash P salt pw = Inr h \<and>
      candidates (after B P rq st) = candidates st @
        [\<lparr>oid = new_id (candidates st),
          content = [(''email'', Str e), (''name'', Str n),
                     (''hashed_password'', Str h)]\<rparr>]) \<or>
   (\<exists>c p. candidates (after B P rq st) =
      fst (update_one (candidates st) c [(''resume_path'', Str p)]))"
proof (cases rq)
  case (Signup salt c)
  from signup_candidates [of B P salt c st] show ?thesis
  proof (elim disjE exE conjE)
    assume "candidates (snd (signup B P salt c st)) = candidates st"
    with Signup show ?thesis by simp
  next
    fix h
    assume "hash P salt (password c) = Inr h"
      and "candidates (snd (signup B P salt c st)) = candidates st @
        [\<lparr>oid = new_id (candidates st),
          content = [(''email'', Str (email c)), (''name'', Str (name c)),
                     (''hashed_password'', Str h)]\<rparr>]"
    with Signup have "\<exists>e n salt pw h. hash P salt pw = Inr h \<and>
      candidates (after B P rq st) = candidates st @
        [\<lparr>oid = new_id (candidates st),
          content = [(''email'', Str e), (''name'', Str n),
                     (''hashed_password'', Str h)]\<rparr>]"
      by (intro exI [of _ "email c"] exI [of _ "name c"] exI [of _ salt]
          exI [of _ "password c"] exI [of _ h]) simp
    then show ?thesis by blast
  qed
next
  case (UploadResume i filename bytes)
  then show ?thesis using upload_resume_candidates [of B i filename bytes st] by auto
qed (simp_all add: root_def login_def admin_login_def apply_for_job_def view_candidates_def
    view_resumes_def get_jobs_def get_job_def post_job_def update_job_def put_jobs_status_def
    update_job_status_def get_candidates_def get_candidate_def Let_def
    split: option.splits sum.splits)

lemma reachable_candidates:
  assumes "reachable B P st" and "d \<in> set (candidates st)"
  shows "\<exists>e n salt pw h rest.
      hash P salt pw = Inr h \<and>
      content d = [(''email'', Str e), (''name'', Str n), (''hashed_password'', Str h)] @ rest \<and>
      (rest = [] \<or> (\<exists>p. rest = [(''resume_path'', Str p)]))"
proof -
  define Q where "Q = (\<lambda>d :: doc. \<exists>e n salt pw h rest.
      hash P salt pw = Inr h \<and>
      content d = [(''email'', Str e), (''name'', Str n), (''hashed_password'', Str h)] @ rest \<and>
      (rest = [] \<or> (\<exists>p. rest = [(''resume_path'', Str p)])))"
  have upd: "Q (x\<lparr>content := set_fields (content x) [(''resume_path'', Str p)]\<rparr>)"
    if "Q x" for x p
  proof -
    from that obtain e n salt pw h rest where
      h: "hash P salt pw = Inr h"
      and c: "content x = [(''email'', Str e), (''name'', Str n),
                           (''hashed_password'', Str h)] @ rest"
      and r: "rest = [] \<or> (\<exists>q. rest = [(''resume_path'', Str q)])"
      unfolding Q_def by blast
    from c r have "set_fields (content x) [(''resume_path'', Str p)] =
        [(''email'', Str e), (''name'', Str n), (''hashed_password'', Str h)] @
        [(''resume_path'', Str p)]"
      by (auto simp: set_fields_def)
    with h show ?thesis unfolding Q_def by (simp del: append.simps) blast
  qed
  from assms(1) have "\<forall>d\<in>set (candidates st). Q d"
  proof (induction rule: reachable.induct)
    case (initial st)
    then show ?case by simp
  next
    case (request st rq)
    from after_candidates [of B P rq st] show ?case
    proof (elim disjE exE conjE)
      assume "candidates (after B P rq st) = candidates st"
      with request.IH show ?thesis by simp
    next
      fix e n salt pw h
      assume h: "hash P salt pw = Inr h"
      assume "candidates (after B P rq st) = candidates st @
        [\<lparr>oid = new_id (candidates st),
          content = [(''email'', Str e), (''name'', Str n),
                     (''hashed_password'', Str h)]\<rparr>]"
      moreover from h have "Q \<lparr>oid = new_id (candidates st),
          content = [(''email'', Str e), (''name'', Str n),
                     (''hashed_password'', Str h)]\<rparr>"
        unfolding Q_def by (simp del: append.simps) blast
      ultimately show ?thesis using request.IH by simp
    next
      fix c p
      assume "candidates (after B P rq st) =
        fst (update_one (candidates st) c [(''resume_path'', Str p)])"
      with request.IH upd show ?thesis
        using update_one_preserves [of "candidates st" Q "[(''resume_path'', Str p)]" c]
        by simp
    qed
  qed
  with assms(2) show ?thesis by (simp add: Q_def)
qed

text \<open>
  C9. In every state the service reaches from a store without candidates, a candidate
  document has no field \<open>password\<close>: its fields are among \<open>email\<close>, \<open>name\<close>,
  \<open>hashed_password\<close> and \<open>resume_path\<close>, and the value of \<open>hashed_password\<close> is a string
  that the hash function of the password context returned.
\<close>

theorem no_password_field:
  assumes "reachable B P st" and "d \<in> set (candidates st)"
  shows "map_of (content d) ''password'' = None \<and>
    fst ` set (content d) \<subseteq> {''email'', ''name'', ''hashed_password'', ''resume_path''} \<and>
    (\<exists>salt pw h. hash P salt pw = Inr h \<and>
       map_of (content d) ''hashed_password'' = Some (Str h))"
proof -
  from reachable_candidates [OF assms] obtain e n salt pw h rest where
    h: "hash P salt pw = Inr h"
    and c: "content d = [(''email'', Str e), (''name'', Str n),
                         (''hashed_password'', Str h)] @ rest"
    and r: "rest = [] \<or> (\<exists>p. rest = [(''resume_path'', Str p)])"
    by blast
  from c r have "map_of (content d) ''hashed_password'' = Some (Str h)"
    by auto
  with h have "\<exists>salt pw h. hash P salt pw = Inr h \<and>
      map_of (content d) ''hashed_password'' = Some (Str h)"
    by blast
  moreover from c r have "map_of (content d) ''password'' = None"
    by auto
  moreover from c r have
    "fst ` set (content d) \<subseteq> {''email'', ''name'', ''hashed_password'', ''resume_path''}"
    by auto
  ultimately show ?thesis by simp
qed

theorem no_password_field_witness:
  "reachable bson_lib passlib_ctx st1 \<and> alice_doc \<in> set (candidates st1) \<and>
   map_of (content alice_doc) ''password'' = None \<and>
   fst ` set (content alice_doc) \<subseteq> {''email'', ''name'', ''hashed_password'', ''resume_path''} \<and>
   (\<exists>salt pw h. hash passlib_ctx salt pw = Inr h \<and>
      map_of (content alice_doc) ''hashed_password'' = Some (Str h))"
proof -
  have s: "after bson_lib passlib_ctx (Signup ''s1'' alice) st0 = st1"
    by code_simp
  have "reachable bson_lib passlib_ctx st0"
    by (rule reachable.initial) (simp add: st0_def)
  then have "reachable bson_lib passlib_ctx (after bson_lib passlib_ctx (Signup ''s1'' alice) st0)"
    by (rule reachable.request)
  then have r: "reachable bson_lib passlib_ctx st1"
    by (simp only: s)
  have m: "alice_doc \<in> set (candidates st1)"
    by (simp add: st1_def st0_def)
  from no_password_field [OF r m] r m show ?thesis by blast
qed

subsection \<open>Lists\<close>



lemma resume_entry_email: "contains d ''email'' \<Longrightarrow> resume_entry d = Inr (resume_of d)"
  by (auto simp: resume_entry_def resume_of_def getitem_def get_def contains_def)


lemma applicant_response:
  "CandidateResponse_of B (applicant i) =
     Inr \<lparr>id_str = str B i, resp_email = hex 3 i @ ''@x.com'', resp_name = hex 3 i\<rparr>"
  by (simp add: CandidateResponse_of_def getitem_def applicant_def)

lemma applicant_contains:
  "contains (applicant i) ''resume_path''" "contains (applicant i) ''email''"
  by (simp_all add: contains_def applicant_def)



lemma length_applicants: "length applicants = 100"
  by (simp add: applicants_def)

lemma in_applicants: "d \<in> set applicants \<Longrightarrow> \<exists>i. d = applicant i"
  by (auto simp: applicants_def)

lemma crowd_candidates: "candidates crowd = applicants @ [zoe_doc]"
  by (simp add: crowd_def st0_def)

lemma crowd_page: "take 100 (candidates crowd) = applicants"
  by (simp add: crowd_candidates length_applicants)

lemma view_resumes_crowd: "fst (view_resumes crowd) = Inr (map resume_of applicants)"
proof -
  have c: "contains d ''resume_path'' \<and> contains d ''email''" if "d \<in> set applicants" for d
    using in_applicants [OF that] applicant_contains by blast
  have f: "filter (\<lambda>candidate. contains candidate ''resume_path'') applicants = applicants"
    using c by (simp add: filter_id_conv)
  have "comprehension resume_entry applicants = Inr (map resume_of applicants)"
    using c by (intro comprehension_map) (simp add: resume_entry_email)
  then show ?thesis
    by (simp add: view_resumes_def to_list_def crowd_page f)
qed

lemma view_candidates_crowd:
  "fst (view_candidates B crowd) =
     Inr (map (\<lambda>d. \<lparr>id_str = str B (oid d), resp_email = hex 3 (oid d) @ ''@x.com'',
                      resp_name = hex 3 (oid d)\<rparr>) applicants)"
proof -
  have "CandidateResponse_of B d =
      Inr \<lparr>id_str = str B (oid d), resp_email = hex 3 (oid d) @ ''@x.com'',
           resp_name = hex 3 (oid d)\<rparr>" if "d \<in> set applicants" for d
  proof -
    from in_applicants [OF that] obtain i where d: "d = applicant i" by blast
    have "oid (applicant i) = i" by (simp add: applicant_def)
    with d show ?thesis by (simp add: applicant_response)
  qed
  then have "comprehension (CandidateResponse_of B) applicants =
      Inr (map (\<lambda>d. \<lparr>id_str = str B (oid d), resp_email = hex 3 (oid d) @ ''@x.com'',
                       resp_name = hex 3 (oid d)\<rparr>) applicants)"
    by (intro comprehension_map) simp
  then show ?thesis
    by (simp add: view_candidates_def to_list_def crowd_page)
qed

text \<open>
  C7. Whenever \<open>get_jobs\<close>, \<open>get_candidates\<close>, \<open>view_candidates\<close> or \<open>view_resumes\<close>
  returns a list, the list has at most 100 items, whatever the store holds.
\<close>

theorem list_endpoints_capped:
  "(\<forall>xs. fst (get_jobs B st) = Inr xs \<longrightarrow> length xs \<le> 100) \<and>
   (\<forall>xs. fst (get_candidates B st) = Inr xs \<longrightarrow> length xs \<le> 100) \<and>
   (\<forall>xs. fst (view_candidates B st) = Inr xs \<longrightarrow> length xs \<le> 100) \<and>
   (\<forall>xs. fst (view_resumes st) = Inr xs \<longrightarrow> length xs \<le> 100)"
proof -
  have "length (filter (\<lambda>candidate. contains candidate ''resume_path'')
      (take 100 (candidates st))) \<le> 100"
    by (rule order_trans [OF length_filter_le]) simp
  then show ?thesis
    by (auto simp: get_jobs_def get_candidates_def view_candidates_def view_resumes_def
        to_list_def dest!: comprehension_length)
qed

theorem list_endpoints_capped_witness:
  "length (candidates crowd) = 101 \<and>
   fst (view_candidates bson_lib crowd) =
     Inr (map (\<lambda>d. \<lparr>id_str = str bson_lib (oid d), resp_email = hex 3 (oid d) @ ''@x.com'',
                      resp_name = hex 3 (oid d)\<rparr>) applicants) \<and>
   length (map (\<lambda>d. \<lparr>id_str = str bson_lib (oid d), resp_email = hex 3 (oid d) @ ''@x.com'',
                      resp_name = hex 3 (oid d)\<rparr>) applicants) \<le> 100 \<and>
   fst (view_resumes crowd) = Inr (map resume_of applicants) \<and>
   length (map resume_of applicants) \<le> 100"
proof -
  have n: "length (candidates crowd) = 101"
    by (simp add: crowd_candidates length_applicants)
  from list_endpoints_capped [of bson_lib crowd] view_candidates_crowd [of bson_lib]
    view_resumes_crowd n
  show ?thesis by simp
qed




end
